theory Spec2Isabelle
  imports Main
begin

section \<open>Data model (types/types.ts)\<close>

text \<open>
  The protocol values of the A2A server runtime. Optional fields of the
  TypeScript types are \<open>option\<close> values: \<open>None\<close> is an absent key.
  Field names carry a short prefix where two record types share a name
  (\<open>contextId\<close>, \<open>metadata\<close>, \<open>parts\<close>).
\<close>

datatype TaskState =
  Submitted | Working | InputRequired | AuthRequired
  | Completed | Canceled | Failed | Rejected | Unknown

datatype Role = User | Agent

datatype Part = TextPart string | FilePart string | DataPart "(string \<times> string) list"

type_synonym Metadata = "(string \<times> string) list"

record Message =
  messageId :: string
  role :: Role
  parts :: "Part list"
  msg_metadata :: "Metadata option"
  msg_contextId :: "string option"
  msg_taskId :: "string option"
  referenceTaskIds :: "string list option"

record Artifact =
  artifactId :: string
  art_name :: "string option"
  art_parts :: "Part list"
  art_metadata :: "Metadata option"

record TaskStatus =
  state :: TaskState
  timestamp :: "string option"
  status_message :: "Message option"

record Task =
  task_id :: string
  task_contextId :: string
  status :: TaskStatus
  artifacts :: "Artifact list option"
  history :: "Message list option"
  task_metadata :: "Metadata option"

section \<open>Execution context (server/agent/context.ts)\<close>

record AgentMessageParams =
  mp_parts :: "Part list"
  mp_metadata :: "Metadata option"

record AgentTaskParams =
  tp_artifacts :: "Artifact list option"
  tp_message :: "AgentMessageParams option"
  tp_metadata :: "Metadata option"

text \<open>
  The two sources of nondeterminism of the context, \<open>uuidv4()\<close> and
  \<open>new Date().toISOString()\<close>, are inputs of the model: \<open>uuid_ctx\<close>,
  \<open>uuid_task\<close> and \<open>uuid_msg\<close> are the values \<open>uuidv4()\<close> returns when a
  context id, a task id and a message id are generated, \<open>now\<close> is the
  timestamp.
\<close>

record Env =
  uuid_ctx :: string
  uuid_task :: string
  uuid_msg :: string
  now :: string

record AgentExecutionContext =
  cx_id :: string
  currentTask :: "Task option"
  referenceTasks :: "Task list option"

text \<open>JavaScript truthiness of an optional string: absent and empty are falsy.\<close>

fun truthy :: "string option \<Rightarrow> bool" where
  "truthy None = False"
| "truthy (Some s) = (s \<noteq> [])"

text \<open>\<open>a || b\<close> on an optional string and a string.\<close>

fun or_else :: "string option \<Rightarrow> string \<Rightarrow> string" where
  "or_else None d = d"
| "or_else (Some s) d = (if s \<noteq> [] then s else d)"

text \<open>
  The constructor, given the message of the request: the context id is
  \<open>task?.contextId || message.contextId || id || uuidv4()\<close>.
\<close>

definition new_AgentExecutionContext ::
  "Env \<Rightarrow> Message \<Rightarrow> Task option \<Rightarrow> Task list option \<Rightarrow> string option
    \<Rightarrow> AgentExecutionContext" where
  "new_AgentExecutionContext env m task refs ident =
     \<lparr> cx_id = or_else (map_option task_contextId task)
                 (or_else (msg_contextId m) (or_else ident (uuid_ctx env))),
       currentTask = task,
       referenceTasks = refs \<rparr>"

text \<open>\<open>_createMessage(messageParams, taskId?, messageId?)\<close>.\<close>

definition createMessage ::
  "Env \<Rightarrow> AgentExecutionContext \<Rightarrow> AgentMessageParams \<Rightarrow> string option \<Rightarrow> string option
    \<Rightarrow> Message" where
  "createMessage env cx messageParams taskId msgId =
     \<lparr> messageId = or_else msgId (uuid_msg env),
       role = Agent,
       parts = mp_parts messageParams,
       msg_metadata = mp_metadata messageParams,
       msg_contextId = Some (cx_id cx),
       msg_taskId = (if truthy taskId then taskId else None),
       referenceTaskIds = None \<rparr>"

text \<open>
  \<open>_createStatus(state, message?)\<close>: the \<open>message\<close> key is present only when a
  message is given.
\<close>

definition createStatus :: "Env \<Rightarrow> TaskState \<Rightarrow> Message option \<Rightarrow> TaskStatus" where
  "createStatus env st msg =
     \<lparr> state = st, timestamp = Some (now env), status_message = msg \<rparr>"

text \<open>
  Object spread \<open>{...old, ...new}\<close> on two statuses: a key of \<open>new\<close> overrides
  the same key of \<open>old\<close>, a key absent from \<open>new\<close> keeps the value of \<open>old\<close>.
\<close>

definition spread_status :: "TaskStatus \<Rightarrow> TaskStatus \<Rightarrow> TaskStatus" where
  "spread_status old new =
     \<lparr> state = state new,
       timestamp = (case timestamp new of Some t \<Rightarrow> Some t | None \<Rightarrow> timestamp old),
       status_message =
         (case status_message new of Some m \<Rightarrow> Some m | None \<Rightarrow> status_message old) \<rparr>"

text \<open>\<open>_mergeArtifacts(existing = [], newArtifacts = [])\<close>.\<close>

definition mergeArtifacts :: "Artifact list option \<Rightarrow> Artifact list option \<Rightarrow> Artifact list" where
  "mergeArtifacts existing newArtifacts =
     (case existing of None \<Rightarrow> [] | Some xs \<Rightarrow> xs) @
     (case newArtifacts of None \<Rightarrow> [] | Some ys \<Rightarrow> ys)"

text \<open>\<open>x?.f\<close> for an optional object and an optional field.\<close>

definition opt_field :: "'a option \<Rightarrow> ('a \<Rightarrow> 'b option) \<Rightarrow> 'b option" where
  "opt_field x f = (case x of None \<Rightarrow> None | Some v \<Rightarrow> f v)"

text \<open>\<open>_createOrUpdateTask(taskParams, taskState, taskId?)\<close>.\<close>

definition createOrUpdateTask ::
  "Env \<Rightarrow> AgentExecutionContext \<Rightarrow> AgentTaskParams option \<Rightarrow> TaskState \<Rightarrow> string option
    \<Rightarrow> Task" where
  "createOrUpdateTask env cx taskParams taskState taskId =
     (let cur = currentTask cx;
          tid = or_else (map_option task_id cur) (or_else taskId (uuid_task env));
          arts = mergeArtifacts
                   (Some (case opt_field cur artifacts of None \<Rightarrow> [] | Some xs \<Rightarrow> xs))
                   (Some (case opt_field taskParams tp_artifacts of None \<Rightarrow> [] | Some ys \<Rightarrow> ys));
          meta = (case opt_field taskParams tp_metadata of
                    Some m \<Rightarrow> m
                  | None \<Rightarrow> (case opt_field cur task_metadata of Some m \<Rightarrow> m | None \<Rightarrow> []));
          statusMessage =
            (case opt_field taskParams tp_message of
               Some mp \<Rightarrow> Some (createMessage env cx mp (Some tid) None)
             | None \<Rightarrow> None);
          newStatus = createStatus env taskState statusMessage;
          st = (case cur of None \<Rightarrow> newStatus | Some t \<Rightarrow> spread_status (status t) newStatus)
      in \<lparr> task_id = tid,
           task_contextId = cx_id cx,
           status = st,
           artifacts = Some arts,
           history = None,
           task_metadata = Some meta \<rparr>)"

text \<open>
  \<open>setOrUpdateTask\<close> stores the task as the current task and returns it; the
  model returns the updated context, whose \<open>currentTask\<close> is the returned task.
\<close>

definition setOrUpdateTask ::
  "Env \<Rightarrow> AgentTaskParams option \<Rightarrow> TaskState \<Rightarrow> string option \<Rightarrow> AgentExecutionContext
    \<Rightarrow> AgentExecutionContext" where
  "setOrUpdateTask env taskParams taskState taskId cx =
     cx\<lparr> currentTask := Some (createOrUpdateTask env cx taskParams taskState taskId) \<rparr>"

text \<open>
  \<open>message(messageParams, messageId?)\<close> calls
  \<open>this._createMessage(messageParams, messageId)\<close>: its second argument lands in
  the \<open>taskId\<close> position of \<open>_createMessage\<close>, the third is left undefined.
\<close>

definition cx_message ::
  "Env \<Rightarrow> AgentExecutionContext \<Rightarrow> AgentMessageParams \<Rightarrow> string option \<Rightarrow> Message" where
  "cx_message env cx messageParams msgId = createMessage env cx messageParams msgId None"

section \<open>In-memory event queue (server/providers/queue/in\_memory.ts)\<close>

text \<open>
  \<open>pendingDequeuePromises\<close> holds the \<open>resolve\<close> callbacks of blocked
  \<open>dequeue\<close> calls; a callback is identified by the number of its promise.
  \<open>resolved\<close> records every call of such a callback (and every value an
  \<open>async dequeue\<close> returned at once) as the pair of the promise and the value
  it was settled with; \<open>None\<close> is \<open>undefined\<close>.
\<close>

record 'a InMemoryQueue =
  items :: "'a list"
  isClosed :: bool
  pendingDequeuePromises :: "nat list"
  resolved :: "(nat \<times> 'a option) list"

definition new_queue :: "'a InMemoryQueue" where
  "new_queue = \<lparr> items = [], isClosed = False, pendingDequeuePromises = [], resolved = [] \<rparr>"

text \<open>
  \<open>dequeue()\<close>, called for the promise \<open>p\<close>: a closed queue returns
  \<open>undefined\<close>, an empty one parks the callback, otherwise the head is returned.
\<close>

definition dequeue :: "nat \<Rightarrow> 'a InMemoryQueue \<Rightarrow> 'a InMemoryQueue" where
  "dequeue p q =
     (if isClosed q then q\<lparr> resolved := resolved q @ [(p, None)] \<rparr>
      else case items q of
        [] \<Rightarrow> q\<lparr> pendingDequeuePromises := pendingDequeuePromises q @ [p] \<rparr>
      | x # xs \<Rightarrow> q\<lparr> items := xs, resolved := resolved q @ [(p, Some x)] \<rparr>)"

text \<open>
  The loop of \<open>resolvePendingPromises\<close>: while a callback is pending and an item
  is available, shift both and call the callback with the item.
\<close>

fun resolve_loop ::
  "nat list \<Rightarrow> 'a list \<Rightarrow> (nat \<times> 'a option) list
    \<Rightarrow> nat list \<times> 'a list \<times> (nat \<times> 'a option) list" where
  "resolve_loop (p # ps) (x # xs) log = resolve_loop ps xs (log @ [(p, Some x)])"
| "resolve_loop ps xs log = (ps, xs, log)"

definition resolvePendingPromises :: "'a InMemoryQueue \<Rightarrow> 'a InMemoryQueue" where
  "resolvePendingPromises q =
     (case resolve_loop (pendingDequeuePromises q) (items q) (resolved q) of
        (ps, xs, log) \<Rightarrow> q\<lparr> items := xs, pendingDequeuePromises := ps, resolved := log \<rparr>)"

definition enqueue :: "'a \<Rightarrow> 'a InMemoryQueue \<Rightarrow> 'a InMemoryQueue" where
  "enqueue item q = resolvePendingPromises (q\<lparr> items := items q @ [item] \<rparr>)"

definition size_q :: "'a InMemoryQueue \<Rightarrow> nat" where
  "size_q q = length (items q)"

definition isEmpty :: "'a InMemoryQueue \<Rightarrow> bool" where
  "isEmpty q = (length (items q) = 0)"

definition peek :: "'a InMemoryQueue \<Rightarrow> 'a option" where
  "peek q = (case items q of [] \<Rightarrow> None | x # _ \<Rightarrow> Some x)"

text \<open>\<open>close()\<close>: drop the items, call every pending callback with \<open>undefined\<close>.\<close>

definition close :: "'a InMemoryQueue \<Rightarrow> 'a InMemoryQueue" where
  "close q =
     \<lparr> items = [],
       isClosed = True,
       pendingDequeuePromises = [],
       resolved = resolved q @ map (\<lambda>p. (p, None)) (pendingDequeuePromises q) \<rparr>"

text \<open>The value a promise was settled with: the first call of its callback counts.\<close>

definition settled_value :: "(nat \<times> 'a option) list \<Rightarrow> nat \<Rightarrow> 'a option option" where
  "settled_value log p = map_of log p"

text \<open>
  Every item the queue has accepted and not discarded, oldest first: the items
  handed to dequeuers followed by the items still buffered.
\<close>

definition delivered :: "(nat \<times> 'a option) list \<Rightarrow> 'a list" where
  "delivered log = concat (map (\<lambda>(p, v). case v of None \<Rightarrow> [] | Some x \<Rightarrow> [x]) log)"

definition queue_history :: "'a InMemoryQueue \<Rightarrow> 'a list" where
  "queue_history q = delivered (resolved q) @ items q"

section \<open>Task stream (server/agent/stream.ts, server/agent/types.ts)\<close>

record JSONRPCError =
  code :: int
  err_message :: string

datatype AgentStreamEvent =
    TaskEvent Task
  | MessageEvent Message
  | StatusUpdate string string TaskStatus bool
  | ArtifactUpdate string string Artifact bool bool "Metadata option"
  | ErrorEvent JSONRPCError
  | EndOfStream "string option" "string option"

text \<open>
  \<open>StatusUpdate taskId contextId status final\<close>,
  \<open>ArtifactUpdate taskId contextId artifact append lastChunk metadata\<close>,
  \<open>EndOfStream taskId contextId\<close>.
\<close>

record AgentArtifactParams =
  ap_artifact :: Artifact
  ap_append :: "bool option"
  ap_lastChunk :: "bool option"

definition isFinalTaskState :: "TaskState \<Rightarrow> bool" where
  "isFinalTaskState st = (st \<in> set [Completed, Failed, Canceled, Rejected])"

definition isPendingTaskState :: "TaskState \<Rightarrow> bool" where
  "isPendingTaskState st = (st \<in> set [InputRequired, AuthRequired])"

fun isEndOfStream :: "AgentStreamEvent \<Rightarrow> bool" where
  "isEndOfStream (EndOfStream _ _) = True"
| "isEndOfStream _ = False"

text \<open>
  A thrown value: a JavaScript \<open>Error\<close> with its message, a thrown JSON-RPC
  error object, or any other value.
\<close>

datatype Exn = Error string | ThrownError JSONRPCError | ThrownValue

record AgentTaskStream =
  closed :: bool
  cx :: AgentExecutionContext
  streamQueue :: "AgentStreamEvent InMemoryQueue"

text \<open>The constructor: it throws when the context has no current task.\<close>

definition new_AgentTaskStream :: "AgentExecutionContext \<Rightarrow> Exn + AgentTaskStream" where
  "new_AgentTaskStream c =
     (case currentTask c of
        None \<Rightarrow> Inl (Error ''Cannot create AgentTaskStream: context has no current task.'')
      | Some _ \<Rightarrow> Inr \<lparr> closed = False, cx = c, streamQueue = new_queue \<rparr>)"

definition terminateIfPendingOrFinalState :: "AgentTaskStream \<Rightarrow> AgentTaskStream" where
  "terminateIfPendingOrFinalState s =
     (case currentTask (cx s) of
        None \<Rightarrow> s
      | Some task \<Rightarrow>
          if isPendingTaskState (state (status task)) \<or> isFinalTaskState (state (status task))
          then s\<lparr> closed := True,
                 streamQueue :=
                   enqueue (EndOfStream (Some (task_id task)) (Some (task_contextId task)))
                     (streamQueue s) \<rparr>
          else s)"

definition sendTaskStatusUpdate :: "AgentTaskStream \<Rightarrow> AgentTaskStream" where
  "sendTaskStatusUpdate s =
     (case currentTask (cx s) of
        None \<Rightarrow> s
      | Some task \<Rightarrow>
          s\<lparr> streamQueue :=
               enqueue (StatusUpdate (task_id task) (task_contextId task) (status task)
                          (isFinalTaskState (state (status task))))
                 (streamQueue s) \<rparr>)"

definition getTask :: "AgentTaskStream \<Rightarrow> Exn + Task" where
  "getTask s = (case currentTask (cx s) of None \<Rightarrow> Inl (Error ''No task found'') | Some t \<Rightarrow> Inr t)"

text \<open>The empty object \<open>{}\<close> passed as task parameters.\<close>

definition no_params :: AgentTaskParams where
  "no_params = \<lparr> tp_artifacts = None, tp_message = None, tp_metadata = None \<rparr>"

definition default_false :: "bool option \<Rightarrow> bool" where
  "default_false b = (case b of None \<Rightarrow> False | Some v \<Rightarrow> v)"

definition writeArtifact ::
  "Env \<Rightarrow> AgentArtifactParams \<Rightarrow> bool \<Rightarrow> AgentTaskStream \<Rightarrow> Exn + AgentTaskStream" where
  "writeArtifact env ap sendStatus s =
     (if closed s then Inl (Error ''Task stream already terminated.'')
      else case currentTask (cx s) of
        None \<Rightarrow> Inl (Error ''No task find to stream artifacts to'')
      | Some task \<Rightarrow>
          (let s1 = (if state (status task) \<noteq> Working
                     then (let s' = s\<lparr> cx := setOrUpdateTask env (Some no_params) Working None (cx s) \<rparr>
                           in if sendStatus then sendTaskStatusUpdate s' else s')
                     else s);
               s2 = s1\<lparr> streamQueue :=
                          enqueue (ArtifactUpdate (task_id task) (cx_id (cx s1)) (ap_artifact ap)
                                     (default_false (ap_append ap)) (default_false (ap_lastChunk ap))
                                     (art_metadata (ap_artifact ap)))
                            (streamQueue s1) \<rparr>
           in Inr (terminateIfPendingOrFinalState s2)))"


text \<open>
  The common body of \<open>reject\<close>, \<open>authRequired\<close>, \<open>inputRequired\<close> and
  \<open>complete\<close>, which differ in the target state only.
\<close>

definition transition ::
  "TaskState \<Rightarrow> Env \<Rightarrow> AgentTaskParams \<Rightarrow> AgentTaskStream \<Rightarrow> Exn + AgentTaskStream" where
  "transition st env taskParams s =
     (if closed s then Inl (Error ''Task stream already terminated.'')
      else Inr (terminateIfPendingOrFinalState
                  (sendTaskStatusUpdate
                     (s\<lparr> cx := setOrUpdateTask env (Some taskParams) st None (cx s) \<rparr>))))"




definition complete :: "Env \<Rightarrow> AgentTaskParams \<Rightarrow> AgentTaskStream \<Rightarrow> Exn + AgentTaskStream" where
  "complete = transition Completed"





section \<open>Stream consumer (server/server/taskStreamConsumer.ts)\<close>

text \<open>
  The runtime is single-threaded and cooperative: code runs without
  interruption from one suspension point (\<open>await\<close>, \<open>yield\<close>) to the next.
  The consumer and its async generators are modelled as a state machine whose
  steps are these uninterrupted blocks.

  An async generator function runs none of its body when it is called: the
  call returns a generator object suspended at the start, and the body runs
  only when \<open>next()\<close> is called on that object.
\<close>

text \<open>
  Where the generator made by \<open>consume()\<close> stands: not started, suspended at
  \<open>await this.streamQueue.dequeue()\<close> for a promise, suspended at
  \<open>yield event\<close>, or completed.
\<close>

datatype ConsumePc = CNotStarted | CAwaitDequeue nat | CAtYield AgentStreamEvent | CDone

text \<open>
  Where a generator made by \<open>tap()\<close> stands once its body has started:
  suspended at the \<open>await\<close> of a promise, at a \<open>yield\<close>, or completed.
\<close>

datatype TapPc = TAwait nat | TAtYield | TDone

record Tapper =
  tapper_queue :: "AgentStreamEvent list"
  tapper_resolve :: "nat option"

text \<open>
  The consumer object with the heap cells it shares: the stream's queue, the
  tapper objects (by identity) and the promises the tappers wait for.
  \<open>tappers\<close> is the \<open>Set\<close> in insertion order. \<open>tap_resolved\<close> records every
  call of a tapper's \<open>resolve\<close> callback; the first call for a promise
  settles it, later ones have no effect. \<open>consume_gen\<close> is \<open>None\<close> until
  \<open>consume()\<close> is called. \<open>primary_out\<close> and \<open>tap_out\<close> record the events
  the generators have yielded.
\<close>

record TaskStreamConsumer =
  tappers :: "nat list"
  consuming :: bool
  finished :: bool
  c_streamQueue :: "AgentStreamEvent InMemoryQueue"
  aborted :: bool
  tapper_heap :: "nat \<rightharpoonup> Tapper"
  tap_resolved :: "(nat \<times> AgentStreamEvent option) list"
  next_promise :: nat
  consume_gen :: "ConsumePc option"
  tap_gen :: "nat \<rightharpoonup> TapPc"
  primary_out :: "AgentStreamEvent list"
  tap_out :: "(nat \<times> AgentStreamEvent) list"

definition new_TaskStreamConsumer :: "AgentTaskStream \<Rightarrow> bool \<Rightarrow> TaskStreamConsumer" where
  "new_TaskStreamConsumer taskStream abortSignal =
     \<lparr> tappers = [], consuming = False, finished = False,
       c_streamQueue = streamQueue taskStream, aborted = abortSignal,
       tapper_heap = Map.empty, tap_resolved = [], next_promise = 0,
       consume_gen = None, tap_gen = Map.empty, primary_out = [], tap_out = [] \<rparr>"

text \<open>The call \<open>consumer.consume()\<close>: a generator object, no body run.\<close>

definition consume_call :: "TaskStreamConsumer \<Rightarrow> TaskStreamConsumer" where
  "consume_call c = (if consume_gen c = None then c\<lparr> consume_gen := Some CNotStarted \<rparr> else c)"

text \<open>The \<open>resolve\<close> callbacks the \<open>finally\<close> block of \<open>consume\<close> calls.\<close>

definition wake_all :: "TaskStreamConsumer \<Rightarrow> (nat \<times> AgentStreamEvent option) list" where
  "wake_all c =
     concat (map (\<lambda>n. case opt_field (tapper_heap c n) tapper_resolve of
                          None \<Rightarrow> [] | Some p \<Rightarrow> [(p, None)]) (tappers c))"

definition consume_finally :: "TaskStreamConsumer \<Rightarrow> TaskStreamConsumer" where
  "consume_finally c =
     c\<lparr> finished := True,
        tap_resolved := tap_resolved c @ wake_all c,
        tappers := [],
        consuming := False,
        consume_gen := Some CDone \<rparr>"

text \<open>The head of the \<open>while\<close> loop of \<open>consume\<close>, up to the \<open>await\<close>.\<close>

definition consume_loop :: "TaskStreamConsumer \<Rightarrow> TaskStreamConsumer" where
  "consume_loop c =
     (if aborted c then consume_finally c
      else c\<lparr> c_streamQueue := dequeue (next_promise c) (c_streamQueue c),
              next_promise := Suc (next_promise c),
              consume_gen := Some (CAwaitDequeue (next_promise c)) \<rparr>)"

text \<open>The broadcast loop, for one tapper and for all of them.\<close>

definition broadcast_one :: "AgentStreamEvent \<Rightarrow> nat \<Rightarrow> TaskStreamConsumer \<Rightarrow> TaskStreamConsumer" where
  "broadcast_one event n c =
     (case tapper_heap c n of
        None \<Rightarrow> c
      | Some tapper \<Rightarrow>
          (case tapper_resolve tapper of
             Some p \<Rightarrow> c\<lparr> tap_resolved := tap_resolved c @ [(p, Some event)] \<rparr>
           | None \<Rightarrow>
               c\<lparr> tapper_heap := (tapper_heap c)
                      (n \<mapsto> tapper\<lparr> tapper_queue := tapper_queue tapper @ [event] \<rparr>) \<rparr>))"

definition broadcast :: "AgentStreamEvent \<Rightarrow> TaskStreamConsumer \<Rightarrow> TaskStreamConsumer" where
  "broadcast event c = fold (broadcast_one event) (tappers c) c"

text \<open>
  \<open>next()\<close> on the generator of \<open>consume()\<close>: from the start it runs the guard
  and enters the loop; from \<open>yield event\<close> it broadcasts the event and goes
  back to the head of the loop.
\<close>

definition consume_next :: "TaskStreamConsumer \<Rightarrow> TaskStreamConsumer" where
  "consume_next c =
     (case consume_gen c of
        Some CNotStarted \<Rightarrow>
          if consuming c \<or> finished c then c\<lparr> consume_gen := Some CDone \<rparr>
          else consume_loop (c\<lparr> consuming := True \<rparr>)
      | Some (CAtYield event) \<Rightarrow> consume_loop (broadcast event c)
      | _ \<Rightarrow> c)"

text \<open>
  The continuation of \<open>await this.streamQueue.dequeue()\<close>, once the promise
  is settled: \<open>undefined\<close> and the end-of-stream event leave the loop, any
  other event is yielded.
\<close>

definition consume_wake :: "TaskStreamConsumer \<Rightarrow> TaskStreamConsumer" where
  "consume_wake c =
     (case consume_gen c of
        Some (CAwaitDequeue p) \<Rightarrow>
          (case settled_value (resolved (c_streamQueue c)) p of
             None \<Rightarrow> c
           | Some None \<Rightarrow> consume_finally c
           | Some (Some event) \<Rightarrow>
               if isEndOfStream event then consume_finally c
               else c\<lparr> primary_out := primary_out c @ [event],
                       consume_gen := Some (CAtYield event) \<rparr>)
      | _ \<Rightarrow> c)"

text \<open>The \<open>finally\<close> block of \<open>tap\<close>.\<close>

definition tap_finally :: "nat \<Rightarrow> TaskStreamConsumer \<Rightarrow> TaskStreamConsumer" where
  "tap_finally n c =
     c\<lparr> tappers := removeAll n (tappers c), tap_gen := (tap_gen c)(n \<mapsto> TDone) \<rparr>"

text \<open>The head of the \<open>while\<close> loop of \<open>tap\<close>, up to the next suspension.\<close>

definition tap_loop :: "nat \<Rightarrow> TaskStreamConsumer \<Rightarrow> TaskStreamConsumer" where
  "tap_loop n c =
     (if finished c then tap_finally n c
      else case tapper_heap c n of
        None \<Rightarrow> c
      | Some tapper \<Rightarrow>
          (case tapper_queue tapper of
             event # rest \<Rightarrow>
               c\<lparr> tapper_heap := (tapper_heap c)(n \<mapsto> tapper\<lparr> tapper_queue := rest \<rparr>),
                  tap_out := tap_out c @ [(n, event)],
                  tap_gen := (tap_gen c)(n \<mapsto> TAtYield) \<rparr>
           | [] \<Rightarrow>
               c\<lparr> tapper_heap :=
                    (tapper_heap c)(n \<mapsto> tapper\<lparr> tapper_resolve := Some (next_promise c) \<rparr>),
                  next_promise := Suc (next_promise c),
                  tap_gen := (tap_gen c)(n \<mapsto> TAwait (next_promise c)) \<rparr>))"

text \<open>
  \<open>next()\<close> on a generator of \<open>tap()\<close>. The first \<open>next()\<close> of the tapper
  numbered \<open>n\<close> (the handlers iterate the generator as soon as \<open>tap()\<close> has
  returned it) makes the tapper object, adds it to the set and enters the loop;
  from a \<open>yield\<close> the generator goes back to the head of the loop.
\<close>

definition tap_next :: "nat \<Rightarrow> TaskStreamConsumer \<Rightarrow> TaskStreamConsumer" where
  "tap_next n c =
     (case tap_gen c n of
        None \<Rightarrow>
          tap_loop n
            (c\<lparr> tapper_heap := (tapper_heap c)(n \<mapsto> \<lparr> tapper_queue = [], tapper_resolve = None \<rparr>),
                tappers := (if n \<in> set (tappers c) then tappers c else tappers c @ [n]) \<rparr>)
      | Some TAtYield \<Rightarrow> tap_loop n c
      | _ \<Rightarrow> c)"

text \<open>The continuation of the \<open>await\<close> in \<open>tap\<close>, once the promise is settled.\<close>

definition tap_wake :: "nat \<Rightarrow> TaskStreamConsumer \<Rightarrow> TaskStreamConsumer" where
  "tap_wake n c =
     (case tap_gen c n of
        Some (TAwait p) \<Rightarrow>
          (case settled_value (tap_resolved c) p of
             None \<Rightarrow> c
           | Some None \<Rightarrow> tap_finally n c
           | Some (Some event) \<Rightarrow>
               c\<lparr> tap_out := tap_out c @ [(n, event)],
                  tap_gen := (tap_gen c)(n \<mapsto> TAtYield) \<rparr>)
      | _ \<Rightarrow> c)"

text \<open>
  The steps of the system around one consumer: the holder of the \<open>consume()\<close>
  generator asks for the next event, an awaited promise of \<open>consume\<close> or of a
  tapper is continued, the subscriber behind tapper \<open>n\<close> asks for its next
  event, the producer enqueues an event on the stream's queue, the request is
  aborted. A step that is not enabled leaves the state as it is.
\<close>

datatype Action =
    ConsumeNext | ConsumeWake | TapNext nat | TapWake nat
  | Produce AgentStreamEvent | Abort

fun step :: "Action \<Rightarrow> TaskStreamConsumer \<Rightarrow> TaskStreamConsumer" where
  "step ConsumeNext c = consume_next c"
| "step ConsumeWake c = consume_wake c"
| "step (TapNext n) c = tap_next n c"
| "step (TapWake n) c = tap_wake n c"
| "step (Produce event) c = c\<lparr> c_streamQueue := enqueue event (c_streamQueue c) \<rparr>"
| "step Abort c = c\<lparr> aborted := True \<rparr>"

definition run :: "Action list \<Rightarrow> TaskStreamConsumer \<Rightarrow> TaskStreamConsumer" where
  "run acts c = fold step acts c"

text \<open>The events tapper \<open>n\<close> has yielded to its subscriber, in order.\<close>

definition tap_events :: "nat \<Rightarrow> TaskStreamConsumer \<Rightarrow> AgentStreamEvent list" where
  "tap_events n c = map snd (filter (\<lambda>(k, e). k = n) (tap_out c))"

section \<open>Stream manager and request handlers (server/server/server.ts)\<close>

datatype RequestId = NumId int | StrId string

datatype JSONRPCResponse =
    SuccessResponse RequestId AgentStreamEvent
  | ErrorResponse RequestId JSONRPCError

text \<open>
  \<open>SuccessResponse id v\<close> is \<open>{jsonrpc, id, result: v}\<close>; a Task result is
  \<open>TaskEvent\<close>, a Message result \<open>MessageEvent\<close>.
\<close>

fun is_error_response :: "JSONRPCResponse \<Rightarrow> bool" where
  "is_error_response (ErrorResponse _ _) = True"
| "is_error_response (SuccessResponse _ _) = False"

definition MethodNotFoundError :: int where "MethodNotFoundError = - 32601"
definition InternalError :: int where "InternalError = - 32603"
definition TaskNotFoundError :: int where "TaskNotFoundError = - 32001"
definition InvalidAgentResponseError :: int where "InvalidAgentResponseError = - 32006"

definition taskNotFoundError :: "string option \<Rightarrow> JSONRPCError" where
  "taskNotFoundError m =
     \<lparr> code = TaskNotFoundError,
       err_message = (case m of None \<Rightarrow> ''Task not found'' | Some t \<Rightarrow> t) \<rparr>"

definition invalidAgentResponseError :: "string option \<Rightarrow> JSONRPCError" where
  "invalidAgentResponseError m =
     \<lparr> code = InvalidAgentResponseError,
       err_message = (case m of None \<Rightarrow> ''Invalid agent response'' | Some t \<Rightarrow> t) \<rparr>"

text \<open>
  The \<open>catch\<close> block of the message handlers: a thrown JSON-RPC error is
  passed on, anything else becomes an InvalidAgentResponse error.
\<close>

fun caught :: "Exn \<Rightarrow> JSONRPCError" where
  "caught (ThrownError e) = e"
| "caught (Error m) = invalidAgentResponseError (Some m)"
| "caught ThrownValue = invalidAgentResponseError None"

datatype AgentExecutionResult =
    TaskResult Task
  | MessageResult Message
  | StreamResult AgentTaskStream Task
  | ErrorResult JSONRPCError
  | OtherResult

text \<open>
  \<open>context.stream(cb, taskId?, initialTaskState = "submitted")\<close>: the task is
  set to the initial state, the stream is made, the callback is called and not
  awaited. \<open>cb\<close> is what the callback does to the stream before its first
  suspension; the task of the result is the one set before the callback ran.
\<close>

definition cx_stream ::
  "Env \<Rightarrow> (AgentTaskStream \<Rightarrow> AgentTaskStream) \<Rightarrow> string option \<Rightarrow> TaskState
    \<Rightarrow> AgentExecutionContext \<Rightarrow> Exn + AgentExecutionResult" where
  "cx_stream env cb taskId initialTaskState c =
     (let c' = setOrUpdateTask env None initialTaskState taskId c
      in case currentTask c' of
           None \<Rightarrow> Inl (Error ''Cannot create AgentTaskStream: context has no current task.'')
         | Some cur \<Rightarrow>
             (case new_AgentTaskStream c' of
                Inl e \<Rightarrow> Inl e
              | Inr taskStream \<Rightarrow> Inr (StreamResult (cb taskStream) cur)))"

record A2AServer =
  taskStore :: "string \<rightharpoonup> Task"
  consumers :: "string \<rightharpoonup> TaskStreamConsumer"

record SendMessageRequest =
  req_id :: RequestId
  req_message :: Message

text \<open>\<open>TaskStreamManager.createConsumer\<close>.\<close>

definition createConsumer ::
  "AgentTaskStream \<Rightarrow> bool \<Rightarrow> A2AServer \<Rightarrow> Exn + (TaskStreamConsumer \<times> A2AServer)" where
  "createConsumer taskStream abortSignal srv =
     (case getTask taskStream of
        Inl e \<Rightarrow> Inl e
      | Inr task \<Rightarrow>
          (case consumers srv (task_id task) of
             Some _ \<Rightarrow>
               Inl (Error (''Stream for task '' @ task_id task @ '' is already being consumed''))
           | None \<Rightarrow>
               (let consumer = new_TaskStreamConsumer taskStream abortSignal
                in Inr (consumer,
                        srv\<lparr> consumers := (consumers srv)(task_id task \<mapsto> consumer) \<rparr>))))"

text \<open>
  \<open>_handleMessage\<close>: resolve the task and the referenced tasks, build the
  context and call the agent executor, which is a parameter.
\<close>

definition handleMessage ::
  "(AgentExecutionContext \<Rightarrow> Exn + AgentExecutionResult) \<Rightarrow> Env \<Rightarrow> SendMessageRequest
    \<Rightarrow> A2AServer \<Rightarrow> Exn + AgentExecutionResult" where
  "handleMessage execute env request srv =
     (let m = req_message request;
          task = (if truthy (msg_taskId m) then opt_field (msg_taskId m) (taskStore srv) else None)
      in if truthy (msg_taskId m) \<and> task = None
         then Inr (ErrorResult
                (taskNotFoundError
                   (Some (''Task '' @ (case msg_taskId m of None \<Rightarrow> [] | Some t \<Rightarrow> t)
                            @ '' not found''))))
         else execute
                (new_AgentExecutionContext env m task
                   (map_option (List.map_filter (taskStore srv)) (referenceTaskIds m))
                   None))"

text \<open>
  The part of \<open>_handleMessageSend\<close> after \<open>_handleMessage\<close> has returned. For a
  stream result the consumer is created and \<open>consumer.consume()\<close> is called;
  the generator object the call returns is not kept and \<open>next()\<close> is never
  called on it.
\<close>

definition handleMessageSend_result ::
  "RequestId \<Rightarrow> bool \<Rightarrow> AgentExecutionResult \<Rightarrow> A2AServer \<Rightarrow> Exn + (JSONRPCResponse \<times> A2AServer)" where
  "handleMessageSend_result rid abortSignal result srv =
     (case result of
        ErrorResult e \<Rightarrow> Inr (ErrorResponse rid e, srv)
      | TaskResult t \<Rightarrow>
          Inr (SuccessResponse rid (TaskEvent t),
               srv\<lparr> taskStore := (taskStore srv)(task_id t \<mapsto> t) \<rparr>)
      | MessageResult m \<Rightarrow> Inr (SuccessResponse rid (MessageEvent m), srv)
      | StreamResult taskStream cur \<Rightarrow>
          (case getTask taskStream of
             Inl e \<Rightarrow> Inl e
           | Inr t \<Rightarrow>
               if task_id t \<noteq> task_id cur \<or> task_contextId t \<noteq> task_contextId cur
               then Inl (Error ''Task mismatch. The task in stream does not match the current task'')
               else (case consumers srv (task_id t) of
                       Some _ \<Rightarrow> Inr (SuccessResponse rid (TaskEvent cur), srv)
                     | None \<Rightarrow>
                         (case createConsumer taskStream abortSignal srv of
                            Inl e \<Rightarrow> Inl e
                          | Inr (consumer, srv') \<Rightarrow>
                              Inr (SuccessResponse rid (TaskEvent cur),
                                   srv'\<lparr> consumers :=
                                          (consumers srv')(task_id t \<mapsto> consume_call consumer) \<rparr>))))
      | OtherResult \<Rightarrow>
          Inr (ErrorResponse rid (invalidAgentResponseError (Some ''Unknown result type'')), srv))"

definition handleMessageSend ::
  "(AgentExecutionContext \<Rightarrow> Exn + AgentExecutionResult) \<Rightarrow> Env \<Rightarrow> bool \<Rightarrow> SendMessageRequest
    \<Rightarrow> A2AServer \<Rightarrow> JSONRPCResponse \<times> A2AServer" where
  "handleMessageSend execute env abortSignal request srv =
     (case handleMessage execute env request srv of
        Inl e \<Rightarrow> (ErrorResponse (req_id request) (caught e), srv)
      | Inr result \<Rightarrow>
          (case handleMessageSend_result (req_id request) abortSignal result srv of
             Inl e \<Rightarrow> (ErrorResponse (req_id request) (caught e), srv)
           | Inr r \<Rightarrow> r))"

text \<open>
  \<open>TaskStreamManager.tapOrConsume\<close>: the server after the call, and whether
  the generator returned is a tap (\<open>True\<close>) or the consumer's own \<open>consume()\<close>.
\<close>

definition tapOrConsume ::
  "AgentTaskStream \<Rightarrow> bool \<Rightarrow> A2AServer \<Rightarrow> Exn + (bool \<times> A2AServer)" where
  "tapOrConsume taskStream abortSignal srv =
     (case getTask taskStream of
        Inl e \<Rightarrow> Inl e
      | Inr t \<Rightarrow>
          (case consumers srv (task_id t) of
             Some _ \<Rightarrow> Inr (True, srv)
           | None \<Rightarrow>
               (case createConsumer taskStream abortSignal srv of
                  Inl e \<Rightarrow> Inl e
                | Inr (consumer, srv') \<Rightarrow>
                    Inr (False,
                         srv'\<lparr> consumers :=
                                (consumers srv')(task_id t \<mapsto> consume_call consumer) \<rparr>))))"

text \<open>
  The part of \<open>_handleMessageStream\<close> after \<open>_handleMessage\<close> has returned: the
  frames the handler yields. \<open>events\<close> are the events the generator returned
  by \<open>tapOrConsume\<close> yields to the \<open>for await\<close> loop before it completes.
\<close>

definition handleMessageStream_result ::
  "RequestId \<Rightarrow> bool \<Rightarrow> AgentStreamEvent list \<Rightarrow> AgentExecutionResult \<Rightarrow> A2AServer
    \<Rightarrow> JSONRPCResponse list \<times> A2AServer" where
  "handleMessageStream_result rid abortSignal events result srv =
     (case result of
        ErrorResult e \<Rightarrow> ([ErrorResponse rid e], srv)
      | TaskResult t \<Rightarrow>
          ([SuccessResponse rid (TaskEvent t)],
           srv\<lparr> taskStore := (taskStore srv)(task_id t \<mapsto> t) \<rparr>)
      | MessageResult m \<Rightarrow> ([SuccessResponse rid (MessageEvent m)], srv)
      | StreamResult taskStream cur \<Rightarrow>
          (case tapOrConsume taskStream abortSignal srv of
             Inl e \<Rightarrow> ([SuccessResponse rid (TaskEvent cur), ErrorResponse rid (caught e)], srv)
           | Inr (_, srv') \<Rightarrow>
               (SuccessResponse rid (TaskEvent cur) # map (SuccessResponse rid) events, srv'))
      | OtherResult \<Rightarrow> ([], srv))"

definition handleMessageStream ::
  "(AgentExecutionContext \<Rightarrow> Exn + AgentExecutionResult) \<Rightarrow> Env \<Rightarrow> bool
    \<Rightarrow> AgentStreamEvent list \<Rightarrow> SendMessageRequest \<Rightarrow> A2AServer
    \<Rightarrow> JSONRPCResponse list \<times> A2AServer" where
  "handleMessageStream execute env abortSignal events request srv =
     (case handleMessage execute env request srv of
        Inl e \<Rightarrow> ([ErrorResponse (req_id request) (caught e)], srv)
      | Inr result \<Rightarrow> handleMessageStream_result (req_id request) abortSignal events result srv)"

section \<open>Dispatcher (server/jsonRPC/jsonRpcServer.ts, server/server/server.ts)\<close>

record JSONRPCRequest =
  rpc_id :: RequestId
  rpc_method :: string

text \<open>
  What a handler returns: \<open>{response}\<close> or \<open>{stream}\<close>, the stream being the
  frames of the async generator.
\<close>

datatype HandlerResponse = Single JSONRPCResponse | Streamed "JSONRPCResponse list"

text \<open>
  \<open>JSONRPCServer.handleRequest\<close> over the map of registered handlers. A
  handler is \<open>async\<close>: what it throws rejects the promise it returns and does
  not reach the \<open>catch\<close> block.
\<close>

definition JSONRPCServer_handleRequest ::
  "(string \<rightharpoonup> (JSONRPCRequest \<Rightarrow> HandlerResponse)) \<Rightarrow> JSONRPCRequest \<Rightarrow> HandlerResponse" where
  "JSONRPCServer_handleRequest handlers request =
     (case handlers (rpc_method request) of
        None \<Rightarrow>
          Single (ErrorResponse (rpc_id request)
                    \<lparr> code = MethodNotFoundError, err_message = ''Method not found'' \<rparr>)
      | Some handler \<Rightarrow> handler request)"

text \<open>
  The six private handlers of \<open>A2AServer\<close>, each closed over the server's
  state, in the order \<open>registerHandlers\<close> registers them.
\<close>

record PrivateHandlers =
  h_messageSend :: "JSONRPCRequest \<Rightarrow> JSONRPCResponse"
  h_messageStream :: "JSONRPCRequest \<Rightarrow> JSONRPCResponse list"
  h_taskCancel :: "JSONRPCRequest \<Rightarrow> JSONRPCResponse"
  h_taskPushNotificationSet :: "JSONRPCRequest \<Rightarrow> JSONRPCResponse"
  h_taskPushNotificationGet :: "JSONRPCRequest \<Rightarrow> JSONRPCResponse"
  h_taskResubscribe :: "JSONRPCRequest \<Rightarrow> JSONRPCResponse list"

definition registerHandlers ::
  "PrivateHandlers \<Rightarrow> (string \<rightharpoonup> (JSONRPCRequest \<Rightarrow> HandlerResponse))" where
  "registerHandlers hs =
     [ ''message/send'' \<mapsto> (\<lambda>r. Single (h_messageSend hs r)),
       ''message/stream'' \<mapsto> (\<lambda>r. Streamed (h_messageStream hs r)),
       ''tasks/cancel'' \<mapsto> (\<lambda>r. Single (h_taskCancel hs r)),
       ''tasks/pushNotificationConfig/set'' \<mapsto> (\<lambda>r. Single (h_taskPushNotificationSet hs r)),
       ''tasks/pushNotificationConfig/get'' \<mapsto> (\<lambda>r. Single (h_taskPushNotificationGet hs r)),
       ''tasks/resubscribe'' \<mapsto> (\<lambda>r. Streamed (h_taskResubscribe hs r)) ]"

text \<open>\<open>A2AServer.handleRequest\<close>; \<open>isRunning\<close> is set by \<open>start()\<close>.\<close>

definition A2AServer_handleRequest ::
  "bool \<Rightarrow> PrivateHandlers \<Rightarrow> JSONRPCRequest \<Rightarrow> Exn + HandlerResponse" where
  "A2AServer_handleRequest isRunning hs request =
     (if \<not> isRunning then Inl (Error ''Server is not running'')
      else Inr (JSONRPCServer_handleRequest (registerHandlers hs) request))"

section \<open>Example values\<close>

definition ex_env :: Env where
  "ex_env = \<lparr> uuid_ctx = ''uuid-c'', uuid_task = ''uuid-t'', uuid_msg = ''uuid-m'', now = ''2025-01-01T00:00:00.000Z'' \<rparr>"

definition ex_msg :: Message where
  "ex_msg = \<lparr> messageId = ''m0'', role = Agent, parts = [TextPart ''how many?''],
      msg_metadata = None, msg_contextId = Some ''ctx-1'', msg_taskId = Some ''task-1'',
      referenceTaskIds = None \<rparr>"

definition ex_artifact :: "string \<Rightarrow> Artifact" where
  "ex_artifact n = \<lparr> artifactId = n, art_name = None, art_parts = [TextPart ''hi''],
      art_metadata = None \<rparr>"

definition ex_task :: Task where
  "ex_task = \<lparr> task_id = ''task-1'', task_contextId = ''ctx-1'',
      status = \<lparr> state = InputRequired, timestamp = Some ''2024-12-31T00:00:00.000Z'',
                 status_message = Some ex_msg \<rparr>,
      artifacts = Some [ex_artifact ''a0''], history = None, task_metadata = None \<rparr>"

definition ex_cx :: AgentExecutionContext where
  "ex_cx = \<lparr> cx_id = ''ctx-1'', currentTask = Some ex_task, referenceTasks = None \<rparr>"

definition ex_params :: AgentMessageParams where
  "ex_params = \<lparr> mp_parts = [TextPart ''hello''], mp_metadata = None \<rparr>"

definition ex_submitted :: Task where
  "ex_submitted = \<lparr> task_id = ''task-1'', task_contextId = ''ctx-1'',
      status = \<lparr> state = Submitted, timestamp = Some ''2024-12-31T00:00:00.000Z'',
                 status_message = None \<rparr>,
      artifacts = Some [], history = None, task_metadata = Some [] \<rparr>"

definition ex_stream :: AgentTaskStream where
  "ex_stream = \<lparr> closed = False,
      cx = \<lparr> cx_id = ''ctx-1'', currentTask = Some ex_submitted, referenceTasks = None \<rparr>,
      streamQueue = new_queue \<rparr>"

definition ex_ap :: AgentArtifactParams where
  "ex_ap = \<lparr> ap_artifact = ex_artifact ''a1'', ap_append = None, ap_lastChunk = None \<rparr>"

definition ex_E1 :: AgentStreamEvent where
  "ex_E1 = ArtifactUpdate ''task-1'' ''ctx-1'' (ex_artifact ''a1'') False False None"

definition ex_E2 :: AgentStreamEvent where
  "ex_E2 = ArtifactUpdate ''task-1'' ''ctx-1'' (ex_artifact ''a2'') False False None"

definition ex_EOS :: AgentStreamEvent where
  "ex_EOS = EndOfStream (Some ''task-1'') (Some ''ctx-1'')"

definition ex_user_message :: Message where
  "ex_user_message = \<lparr> messageId = ''1'', role = User, parts = [TextPart ''hi''],
      msg_metadata = None, msg_contextId = None, msg_taskId = None, referenceTaskIds = None \<rparr>"

definition ex_request :: SendMessageRequest where
  "ex_request = \<lparr> req_id = NumId 1, req_message = ex_user_message \<rparr>"

definition ex_server :: A2AServer where
  "ex_server = \<lparr> taskStore = Map.empty, consumers = Map.empty \<rparr>"

definition ex_other_task :: Task where
  "ex_other_task = ex_submitted\<lparr> task_id := ''task-2'' \<rparr>"

text \<open>A stream whose task is \<open>task-2\<close>, returned beside the task \<open>task-1\<close>.\<close>

definition ex_mismatch_stream :: AgentTaskStream where
  "ex_mismatch_stream = ex_stream\<lparr> cx := (cx ex_stream)\<lparr> currentTask := Some ex_other_task \<rparr> \<rparr>"

definition ex_mismatch_executor :: "AgentExecutionContext \<Rightarrow> Exn + AgentExecutionResult" where
  "ex_mismatch_executor c = Inr (StreamResult ex_mismatch_stream ex_submitted)"

text \<open>
  The second turn of a conversation: the store holds \<open>task-1\<close> in state
  input-required, the client sends \<open>message/send\<close> with that task id, and the
  agent answers with \<open>context.stream(cb)\<close>, where \<open>cb\<close> waits before it writes
  anything. \<open>ex_sent\<close> is the response and the server after the handler has
  returned.
\<close>

definition ex_stored_server :: A2AServer where
  "ex_stored_server = \<lparr> taskStore = [''task-1'' \<mapsto> ex_task], consumers = Map.empty \<rparr>"

definition ex_resume_request :: SendMessageRequest where
  "ex_resume_request =
     \<lparr> req_id = NumId 1,
       req_message = \<lparr> messageId = ''2'', role = User, parts = [TextPart ''3''],
         msg_metadata = None, msg_contextId = None, msg_taskId = Some ''task-1'',
         referenceTaskIds = None \<rparr> \<rparr>"

definition ex_stream_executor :: "AgentExecutionContext \<Rightarrow> Exn + AgentExecutionResult" where
  "ex_stream_executor c = cx_stream ex_env (\<lambda>s. s) None Submitted c"

definition ex_resumed :: Task where
  "ex_resumed = \<lparr> task_id = ''task-1'', task_contextId = ''ctx-1'',
      status = \<lparr> state = Submitted, timestamp = Some ''2025-01-01T00:00:00.000Z'',
                 status_message = Some ex_msg \<rparr>,
      artifacts = Some [ex_artifact ''a0''], history = None, task_metadata = Some [] \<rparr>"

definition ex_sent :: "JSONRPCResponse \<times> A2AServer" where
  "ex_sent = handleMessageSend ex_stream_executor ex_env False ex_resume_request ex_stored_server"

text \<open>
  What the agent's callback enqueues later, when it calls \<open>writeArtifact\<close> and
  then \<open>complete\<close> on the stream: a status-update (working), the
  artifact-update, the final status-update (completed) and the end-of-stream
  event.
\<close>

definition ex_agent_events :: "AgentStreamEvent list" where
  "ex_agent_events =
     [StatusUpdate ''task-1'' ''ctx-1''
        \<lparr> state = Working, timestamp = Some ''2025-01-01T00:00:00.000Z'',
          status_message = Some ex_msg \<rparr> False,
      ArtifactUpdate ''task-1'' ''ctx-1'' (ex_artifact ''a1'') False False None,
      StatusUpdate ''task-1'' ''ctx-1''
        \<lparr> state = Completed, timestamp = Some ''2025-01-01T00:00:00.000Z'',
          status_message = Some ex_msg \<rparr> True,
      EndOfStream (Some ''task-1'') (Some ''ctx-1'')]"

text \<open>
  What happens after the response: the agent enqueues these events, and a
  client subscribes with \<open>tasks/resubscribe\<close>, which taps the consumer.
\<close>

definition ex_after_send :: "Action list" where
  "ex_after_send = map Produce ex_agent_events @ [TapNext 1, TapWake 1]"

text \<open>
  A run of one consumer with two subscribers. Both tappers register before any
  event is produced. The subscriber behind tapper 1 asks for its next event
  right after each event; the one behind tapper 2 is slow and asks for its
  next event only after \<open>ex_E2\<close> has been broadcast.
\<close>

definition ex_schedule :: "Action list" where
  "ex_schedule =
     [ConsumeNext, TapNext 1, TapNext 2,
      Produce ex_E1, ConsumeWake, ConsumeNext, TapWake 1, TapWake 2, TapNext 1,
      Produce ex_E2, ConsumeWake, ConsumeNext, TapWake 1, TapNext 2, TapNext 1,
      Produce ex_EOS, ConsumeWake, TapWake 1, TapWake 2]"

text \<open>
  A run in which every subscriber asks for its next event at once. Tapper 1
  registers before any event; tapper 2 registers after \<open>ex_E1\<close> has been
  broadcast.
\<close>

definition ex_prompt_schedule :: "Action list" where
  "ex_prompt_schedule =
     [ConsumeNext, TapNext 1,
      Produce ex_E1, ConsumeWake, ConsumeNext, TapWake 1, TapNext 1, TapNext 2,
      Produce ex_E2, ConsumeWake, ConsumeNext, TapWake 1, TapWake 2, TapNext 1, TapNext 2,
      Produce ex_EOS, ConsumeWake, TapWake 1, TapWake 2]"

text \<open>The events a list of steps produces, in order.\<close>

fun produced :: "Action list \<Rightarrow> AgentStreamEvent list" where
  "produced [] = []"
| "produced (Produce e # as) = e # produced as"
| "produced (_ # as) = produced as"



section \<open>Properties of the execution context\<close>

text \<open>
  C2 (as amended). A message made by \<open>context.message(params)\<close> has role agent
  and the context's id as its \<open>contextId\<close>, and it carries no \<open>taskId\<close>,
  whether or not the context has a current task: the message is standalone.
\<close>

theorem message_is_standalone:
  "role (cx_message env c p None) = Agent \<and>
   msg_contextId (cx_message env c p None) = Some (cx_id c) \<and>
   msg_taskId (cx_message env c p None) = None"
  by (simp add: cx_message_def createMessage_def)

text \<open>
  The claim as stated fails: the context \<open>ex_cx\<close> has the current task
  \<open>task-1\<close>, and the message does not carry that id.
\<close>

theorem message_taskId_counterexample:
  "currentTask ex_cx = Some ex_task \<and>
   msg_taskId (cx_message ex_env ex_cx ex_params None) \<noteq> Some (task_id ex_task)"
  by (simp add: cx_message_def createMessage_def ex_cx_def)

text \<open>
  C3 (as amended). After \<open>setOrUpdateTask\<close> the status of the current task has
  the new state and the fresh timestamp; its message is the materialized
  incoming message (made with the task's id) when the params carry one, and
  otherwise the message of the previous status, which is carried over.
\<close>

theorem setOrUpdateTask_status:
  "map_option status (currentTask (setOrUpdateTask env tp st tid c)) =
     Some \<lparr> state = st,
            timestamp = Some (now env),
            status_message =
              (case opt_field tp tp_message of
                 Some mp \<Rightarrow>
                   Some (createMessage env c mp
                     (Some (or_else (map_option task_id (currentTask c))
                        (or_else tid (uuid_task env)))) None)
               | None \<Rightarrow> opt_field (currentTask c) (\<lambda>t. status_message (status t))) \<rparr>"
  by (simp add: setOrUpdateTask_def createOrUpdateTask_def createStatus_def spread_status_def
      opt_field_def Let_def split: option.splits)

text \<open>
  The claim as stated fails: the previous status of \<open>ex_cx\<close> has the message
  \<open>ex_msg\<close>, the params carry no message, and the new status still has
  \<open>ex_msg\<close>.
\<close>

theorem status_replaced_counterexample:
  "opt_field (currentTask ex_cx) (\<lambda>t. status_message (status t)) = Some ex_msg \<and>
   tp_message no_params = None \<and>
   opt_field (currentTask (setOrUpdateTask ex_env (Some no_params) Working None ex_cx))
     (\<lambda>t. status_message (status t)) = Some ex_msg"
  by (simp add: setOrUpdateTask_def createOrUpdateTask_def createStatus_def spread_status_def
      opt_field_def Let_def ex_cx_def ex_task_def no_params_def)

text \<open>
  C8 (as amended). After two successive \<open>setOrUpdateTask\<close> calls whose params
  carry the artifact lists \<open>A\<close> and \<open>B\<close>, the artifacts of the current task
  are the artifacts the current task had before the first call (none when
  there was no task), followed by \<open>A\<close>, followed by \<open>B\<close>.
\<close>

theorem setOrUpdateTask_artifacts_concat:
  "opt_field (currentTask
      (setOrUpdateTask env2 (Some (tp2\<lparr>tp_artifacts := Some B\<rparr>)) st2 tid2
        (setOrUpdateTask env1 (Some (tp1\<lparr>tp_artifacts := Some A\<rparr>)) st1 tid1 c))) artifacts
   = Some ((case opt_field (currentTask c) artifacts of None \<Rightarrow> [] | Some E \<Rightarrow> E) @ A @ B)"
  by (simp add: setOrUpdateTask_def createOrUpdateTask_def mergeArtifacts_def
      opt_field_def Let_def split: option.splits)

text \<open>
  The claim as stated fails on a context whose task already has an artifact:
  the result is not \<open>A @ B\<close>.
\<close>

theorem artifacts_concat_counterexample:
  "opt_field (currentTask
      (setOrUpdateTask ex_env (Some (no_params\<lparr>tp_artifacts := Some [ex_artifact ''a2'']\<rparr>)) Working None
        (setOrUpdateTask ex_env (Some (no_params\<lparr>tp_artifacts := Some [ex_artifact ''a1'']\<rparr>)) Working None
           ex_cx)))
      artifacts \<noteq> Some ([ex_artifact ''a1''] @ [ex_artifact ''a2''])"
  by (simp add: setOrUpdateTask_def createOrUpdateTask_def mergeArtifacts_def
      opt_field_def Let_def ex_cx_def ex_task_def ex_artifact_def)

section \<open>Properties of the event queue\<close>

lemma delivered_append: "delivered (xs @ ys) = delivered xs @ delivered ys"
  by (simp add: delivered_def)

lemma resolve_loop_history:
  "resolve_loop ps xs log = (ps', xs', log') \<Longrightarrow> delivered log' @ xs' = delivered log @ xs"
proof (induction ps xs log rule: resolve_loop.induct)
  case (1 p ps x xs log)
  then show ?case by (simp add: delivered_append delivered_def)
qed simp_all

text \<open>Every \<open>enqueue\<close> extends the history of the queue by exactly its item.\<close>

lemma queue_history_enqueue: "queue_history (enqueue x q) = queue_history q @ [x]"
proof -
  obtain ps xs log
    where r: "resolve_loop (pendingDequeuePromises q) (items q @ [x]) (resolved q) = (ps, xs, log)"
    by (metis prod_cases3)
  from resolve_loop_history[OF r] show ?thesis
    by (simp add: queue_history_def enqueue_def resolvePendingPromises_def r)
qed

text \<open>
  C4. \<open>close()\<close> calls every pending dequeue callback with \<open>undefined\<close>, a
  second \<open>close()\<close> changes nothing, and an item enqueued after \<open>close()\<close> is
  never handed to a dequeuer.
\<close>

lemma close_resolves_waiters:
  "resolved (close q) = resolved q @ map (\<lambda>p. (p, None)) (pendingDequeuePromises q) \<and>
   pendingDequeuePromises (close q) = []"
  by (simp add: close_def)

lemma close_idempotent: "close (close q) = close q"
  by (simp add: close_def)

lemma enqueue_after_close_not_delivered:
  "resolved (enqueue x (close q)) = resolved (close q) \<and>
   resolved (dequeue p (enqueue x (close q))) = resolved (close q) @ [(p, None)]"
  by (simp add: close_def enqueue_def resolvePendingPromises_def dequeue_def)

text \<open>
  C4, where the code departs from it: \<open>enqueue\<close> does not look at the closed
  flag, so an item enqueued after \<open>close()\<close> is kept in \<open>items\<close>, where
  \<open>size\<close>, \<open>peek\<close> and \<open>isEmpty\<close> see it.
\<close>

theorem enqueue_after_close_retained:
  "items (enqueue ex_E1 (close (dequeue 0 new_queue))) = [ex_E1] \<and>
   size_q (enqueue ex_E1 (close (dequeue 0 new_queue))) = 1 \<and>
   peek (enqueue ex_E1 (close (dequeue 0 new_queue))) = Some ex_E1 \<and>
   \<not> isEmpty (enqueue ex_E1 (close (dequeue 0 new_queue)))"
  by (simp add: close_def enqueue_def resolvePendingPromises_def dequeue_def new_queue_def
      size_q_def peek_def isEmpty_def)


section \<open>Properties of the task stream\<close>

text \<open>
  C7 (as amended). A \<open>writeArtifact\<close> call on an open stream with a task
  succeeds and enqueues exactly one artifact-update; it enqueues one
  status-update before it if and only if the task was not in state working at
  the call and \<open>sendTaskStatusUpdate\<close> (default true) is true. Nothing else is
  enqueued.
\<close>

theorem writeArtifact_events:
  assumes "\<not> closed s" and "currentTask (cx s) = Some task"
  shows "\<exists>s'. writeArtifact env ap sendStatus s = Inr s' \<and>
     queue_history (streamQueue s') =
       queue_history (streamQueue s)
       @ (if state (status task) \<noteq> Working \<and> sendStatus
          then [StatusUpdate
                  (task_id (createOrUpdateTask env (cx s) (Some no_params) Working None))
                  (cx_id (cx s))
                  (status (createOrUpdateTask env (cx s) (Some no_params) Working None))
                  False]
          else [])
       @ [ArtifactUpdate (task_id task) (cx_id (cx s)) (ap_artifact ap)
            (default_false (ap_append ap)) (default_false (ap_lastChunk ap))
            (art_metadata (ap_artifact ap))]"
proof -
  have w: "state (status (createOrUpdateTask env (cx s) (Some no_params) Working None)) = Working"
    by (simp add: createOrUpdateTask_def createStatus_def spread_status_def Let_def
        split: option.splits)
  have c: "task_contextId (createOrUpdateTask env (cx s) (Some no_params) Working None) = cx_id (cx s)"
    by (simp add: createOrUpdateTask_def Let_def)
  show ?thesis
    using assms w c
    by (simp add: writeArtifact_def Let_def terminateIfPendingOrFinalState_def
        sendTaskStatusUpdate_def setOrUpdateTask_def queue_history_enqueue
        isPendingTaskState_def isFinalTaskState_def)
qed

theorem writeArtifact_events_witness:
  "\<not> closed ex_stream \<and> currentTask (cx ex_stream) = Some ex_submitted \<and>
   (\<exists>s'. writeArtifact ex_env ex_ap True ex_stream = Inr s' \<and>
      queue_history (streamQueue s') =
        [StatusUpdate ''task-1'' ''ctx-1''
           \<lparr> state = Working, timestamp = Some ''2025-01-01T00:00:00.000Z'', status_message = None \<rparr>
           False,
         ArtifactUpdate ''task-1'' ''ctx-1'' (ex_artifact ''a1'') False False None])"
proof -
  have h1: "\<not> closed ex_stream" by (simp add: ex_stream_def)
  have h2: "currentTask (cx ex_stream) = Some ex_submitted" by (simp add: ex_stream_def)
  from writeArtifact_events[OF h1 h2, of ex_env ex_ap True] obtain s'
    where s': "writeArtifact ex_env ex_ap True ex_stream = Inr s'"
      and h: "queue_history (streamQueue s') =
       queue_history (streamQueue ex_stream)
       @ (if state (status ex_submitted) \<noteq> Working \<and> True
          then [StatusUpdate
                  (task_id (createOrUpdateTask ex_env (cx ex_stream) (Some no_params) Working None))
                  (cx_id (cx ex_stream))
                  (status (createOrUpdateTask ex_env (cx ex_stream) (Some no_params) Working None))
                  False]
          else [])
       @ [ArtifactUpdate (task_id ex_submitted) (cx_id (cx ex_stream)) (ap_artifact ex_ap)
            (default_false (ap_append ex_ap)) (default_false (ap_lastChunk ex_ap))
            (art_metadata (ap_artifact ex_ap))]"
    by blast
  have "queue_history (streamQueue s') =
        [StatusUpdate ''task-1'' ''ctx-1''
           \<lparr> state = Working, timestamp = Some ''2025-01-01T00:00:00.000Z'', status_message = None \<rparr>
           False,
         ArtifactUpdate ''task-1'' ''ctx-1'' (ex_artifact ''a1'') False False None]"
    unfolding h
    by (simp add: ex_stream_def ex_submitted_def ex_ap_def ex_env_def ex_artifact_def
        createOrUpdateTask_def createStatus_def spread_status_def mergeArtifacts_def
        opt_field_def no_params_def default_false_def queue_history_def delivered_def
        new_queue_def Let_def)
  with h1 h2 s' show ?thesis by blast
qed

text \<open>
  The claim as stated fails when \<open>sendTaskStatusUpdate\<close> is false: the task is
  in state submitted, not working, and only the artifact-update is enqueued.
\<close>

theorem writeArtifact_no_status_counterexample:
  "state (status ex_submitted) \<noteq> Working \<and>
   map_sum id (\<lambda>s. queue_history (streamQueue s)) (writeArtifact ex_env ex_ap False ex_stream) =
     Inr [ArtifactUpdate ''task-1'' ''ctx-1'' (ex_artifact ''a1'') False False None]"
  by (simp add: writeArtifact_def ex_stream_def ex_submitted_def ex_ap_def ex_env_def
      ex_artifact_def setOrUpdateTask_def createOrUpdateTask_def createStatus_def
      spread_status_def mergeArtifacts_def opt_field_def no_params_def default_false_def
      terminateIfPendingOrFinalState_def isPendingTaskState_def isFinalTaskState_def
      enqueue_def resolvePendingPromises_def queue_history_def delivered_def new_queue_def
      Let_def)










section \<open>Properties of the dispatcher and the request handlers\<close>

text \<open>
  C5, where the code departs from it: \<open>registerHandlers\<close> registers no handler
  for \<open>tasks/get\<close>, so whatever the Task Store holds, a \<open>tasks/get\<close> request is
  answered with the error MethodNotFound (-32601), not with the Task and not
  with TaskNotFound.
\<close>

theorem tasks_get_not_registered:
  "A2AServer_handleRequest True hs (r\<lparr> rpc_method := ''tasks/get'' \<rparr>) =
     Inr (Single (ErrorResponse (rpc_id r)
                    \<lparr> code = - 32601, err_message = ''Method not found'' \<rparr>))"
  by (simp add: A2AServer_handleRequest_def JSONRPCServer_handleRequest_def
      registerHandlers_def MethodNotFoundError_def)

text \<open>
  C10. When the agent returns a Stream result whose stream's task id differs
  from the id of the task returned beside it, \<open>message/stream\<close> yields the
  initial Task and then one result frame per consumed event, none of them an
  error; \<open>message/send\<close> answers the same result with the error
  InvalidAgentResponse (-32006).
\<close>

theorem stream_handler_skips_mismatch_check:
  assumes "handleMessage execute env request srv = Inr (StreamResult taskStream cur)"
    and "currentTask (cx taskStream) = Some t"
    and "task_id t \<noteq> task_id cur"
  shows "fst (handleMessageStream execute env ab events request srv) =
           SuccessResponse (req_id request) (TaskEvent cur)
             # map (SuccessResponse (req_id request)) events \<and>
         list_all (\<lambda>f. \<not> is_error_response f)
           (fst (handleMessageStream execute env ab events request srv)) \<and>
         fst (handleMessageSend execute env ab request srv) =
           ErrorResponse (req_id request)
             \<lparr> code = - 32006,
               err_message = ''Task mismatch. The task in stream does not match the current task'' \<rparr>"
proof -
  have a: "fst (handleMessageStream execute env ab events request srv) =
           SuccessResponse (req_id request) (TaskEvent cur)
             # map (SuccessResponse (req_id request)) events"
    using assms(1,2)
    by (simp add: handleMessageStream_def handleMessageStream_result_def tapOrConsume_def
        createConsumer_def getTask_def Let_def split: option.splits)
  have b: "list_all (\<lambda>f. \<not> is_error_response f)
             (SuccessResponse (req_id request) (TaskEvent cur)
               # map (SuccessResponse (req_id request)) events)"
    by (simp add: list_all_iff)
  have c: "fst (handleMessageSend execute env ab request srv) =
           ErrorResponse (req_id request)
             \<lparr> code = - 32006,
               err_message = ''Task mismatch. The task in stream does not match the current task'' \<rparr>"
    using assms
    by (simp add: handleMessageSend_def handleMessageSend_result_def getTask_def
        invalidAgentResponseError_def InvalidAgentResponseError_def)
  from a b c show ?thesis by simp
qed

theorem stream_handler_skips_mismatch_check_witness:
  "handleMessage ex_mismatch_executor ex_env ex_request ex_server =
     Inr (StreamResult ex_mismatch_stream ex_submitted) \<and>
   currentTask (cx ex_mismatch_stream) = Some ex_other_task \<and>
   task_id ex_other_task \<noteq> task_id ex_submitted \<and>
   fst (handleMessageStream ex_mismatch_executor ex_env False [ex_E1] ex_request ex_server) =
     [SuccessResponse (NumId 1) (TaskEvent ex_submitted), SuccessResponse (NumId 1) ex_E1] \<and>
   fst (handleMessageSend ex_mismatch_executor ex_env False ex_request ex_server) =
     ErrorResponse (NumId 1)
       \<lparr> code = - 32006,
         err_message = ''Task mismatch. The task in stream does not match the current task'' \<rparr>"
proof -
  have h1: "handleMessage ex_mismatch_executor ex_env ex_request ex_server =
              Inr (StreamResult ex_mismatch_stream ex_submitted)"
    by (simp add: handleMessage_def ex_mismatch_executor_def ex_request_def ex_user_message_def)
  have h2: "currentTask (cx ex_mismatch_stream) = Some ex_other_task"
    by (simp add: ex_mismatch_stream_def)
  have h3: "task_id ex_other_task \<noteq> task_id ex_submitted"
    by (simp add: ex_other_task_def ex_submitted_def)
  have r: "req_id ex_request = NumId 1" by (simp add: ex_request_def)
  from stream_handler_skips_mismatch_check[OF h1 h2 h3, of False "[ex_E1]"] h1 h2 h3 r
  show ?thesis by simp
qed

section \<open>Properties of the stream consumer\<close>

text \<open>
  As long as \<open>next()\<close> is not called on the generator that \<open>consume()\<close> has
  returned, the consumer stays as it is whatever else happens: it does not
  start consuming, it does not finish, nothing reaches the primary consumer,
  no tapper is woken, and no event leaves the history of the queue.
\<close>

lemma step_idle:
  assumes "a \<noteq> ConsumeNext" and "consume_gen c = Some CNotStarted"
  shows "consume_gen (step a c) = Some CNotStarted \<and> finished (step a c) = finished c \<and>
         consuming (step a c) = consuming c \<and> primary_out (step a c) = primary_out c \<and>
         tap_resolved (step a c) = tap_resolved c \<and>
         queue_history (c_streamQueue (step a c)) =
           queue_history (c_streamQueue c) @ (case a of Produce e \<Rightarrow> [e] | _ \<Rightarrow> [])"
proof (cases a)
  case ConsumeNext
  with assms show ?thesis by simp
next
  case ConsumeWake
  with assms show ?thesis by (simp add: consume_wake_def)
next
  case (TapNext n)
  with assms show ?thesis
    by (simp add: tap_next_def tap_loop_def tap_finally_def
        split: option.splits TapPc.splits list.splits)
next
  case (TapWake n)
  with assms show ?thesis
    by (simp add: tap_wake_def tap_finally_def split: option.splits TapPc.splits)
next
  case (Produce e)
  with assms show ?thesis by (simp add: queue_history_enqueue)
next
  case Abort
  with assms show ?thesis by simp
qed

lemma run_idle:
  assumes "ConsumeNext \<notin> set acts" and "consume_gen c = Some CNotStarted"
  shows "consume_gen (run acts c) = Some CNotStarted \<and> finished (run acts c) = finished c \<and>
         consuming (run acts c) = consuming c \<and> primary_out (run acts c) = primary_out c \<and>
         tap_resolved (run acts c) = tap_resolved c \<and>
         queue_history (c_streamQueue (run acts c)) =
           queue_history (c_streamQueue c) @ produced acts"
  using assms
proof (induction acts arbitrary: c)
  case Nil
  then show ?case by (simp add: run_def)
next
  case (Cons a acts)
  from Cons.prems have a: "a \<noteq> ConsumeNext" and r: "ConsumeNext \<notin> set acts" by auto
  note s = step_idle[OF a Cons.prems(2)]
  from s have g: "consume_gen (step a c) = Some CNotStarted" by simp
  note ih = Cons.IH[OF r g]
  have p: "(case a of Produce e \<Rightarrow> [e] | _ \<Rightarrow> []) @ produced acts = produced (a # acts)"
    by (cases a) simp_all
  have run_Cons: "run (a # acts) c = run acts (step a c)" by (simp add: run_def)
  show ?case unfolding run_Cons using ih s p by (simp del: produced.simps)
qed

text \<open>
  C1, where the code departs from it: \<open>message/send\<close> answers a Stream result
  with the initial Task and registers a consumer, but the generator that
  \<open>consumer.consume()\<close> returns is dropped with its body not started. The
  events the agent enqueues afterwards, the end-of-stream event included, stay
  in the queue; the consumer never finishes; a subscriber that taps it waits
  for ever.
\<close>

theorem send_leaves_consumer_unstarted:
  "fst ex_sent = SuccessResponse (NumId 1) (TaskEvent ex_resumed) \<and>
   (case consumers (snd ex_sent) ''task-1'' of
      None \<Rightarrow> False
    | Some c \<Rightarrow>
        consume_gen c = Some CNotStarted \<and>
        consume_gen (run ex_after_send c) = Some CNotStarted \<and>
        \<not> consuming (run ex_after_send c) \<and>
        \<not> finished (run ex_after_send c) \<and>
        primary_out (run ex_after_send c) = [] \<and>
        items (c_streamQueue (run ex_after_send c)) = ex_agent_events \<and>
        tappers (run ex_after_send c) = [1] \<and>
        tap_gen (run ex_after_send c) 1 = Some (TAwait 0))"
  by code_simp

text \<open>
  The events of \<open>ex_agent_events\<close> are the ones the stream of that response
  enqueues when the agent calls \<open>writeArtifact\<close> and then \<open>complete\<close>.
\<close>

lemma ex_agent_events_enqueued:
  "(case ex_stream_executor
           (new_AgentExecutionContext ex_env (req_message ex_resume_request) (Some ex_task) None None)
    of Inr (StreamResult s0 cur) \<Rightarrow>
         (case writeArtifact ex_env ex_ap True s0 of
            Inr s1 \<Rightarrow> map_sum id (\<lambda>s2. queue_history (streamQueue s2))
                         (complete ex_env no_params s1)
          | Inl e \<Rightarrow> Inl e)
     | _ \<Rightarrow> Inr []) = Inr ex_agent_events"
  by code_simp

text \<open>
  In the run \<open>ex_prompt_schedule\<close> the primary consumer receives every event
  but the end-of-stream event once, tapper 1 receives both events, and
  tapper 2, registered after \<open>ex_E1\<close> was broadcast, receives \<open>ex_E2\<close> only;
  at the end the consumer has finished, the tapper set is empty and both tap
  generators have completed.
\<close>

lemma prompt_tappers_live_only:
  "primary_out (run ex_prompt_schedule (consume_call (new_TaskStreamConsumer ex_stream False)))
     = [ex_E1, ex_E2] \<and>
   tap_events 1 (run ex_prompt_schedule (consume_call (new_TaskStreamConsumer ex_stream False)))
     = [ex_E1, ex_E2] \<and>
   tap_events 2 (run ex_prompt_schedule (consume_call (new_TaskStreamConsumer ex_stream False)))
     = [ex_E2] \<and>
   finished (run ex_prompt_schedule (consume_call (new_TaskStreamConsumer ex_stream False))) \<and>
   tappers (run ex_prompt_schedule (consume_call (new_TaskStreamConsumer ex_stream False))) = [] \<and>
   tap_gen (run ex_prompt_schedule (consume_call (new_TaskStreamConsumer ex_stream False))) 1
     = Some TDone \<and>
   tap_gen (run ex_prompt_schedule (consume_call (new_TaskStreamConsumer ex_stream False))) 2
     = Some TDone"
  by code_simp

text \<open>
  C6, where the code departs from it: a tapper's \<open>resolve\<close> callback is never
  cleared, so an event broadcast while the tapper is not waiting is passed to
  the callback of a promise that is settled already, and is lost instead of
  being buffered. In the run \<open>ex_schedule\<close> both tappers are registered
  before \<open>ex_E2\<close> is broadcast (and still are, after the twelfth step, which
  broadcasts it); the primary consumer and tapper 1 receive \<open>ex_E1\<close> and
  \<open>ex_E2\<close>, tapper 2 receives \<open>ex_E1\<close> only.
\<close>

theorem slow_tapper_misses_event:
  "primary_out (run ex_schedule (consume_call (new_TaskStreamConsumer ex_stream False)))
     = [ex_E1, ex_E2] \<and>
   tap_events 1 (run ex_schedule (consume_call (new_TaskStreamConsumer ex_stream False)))
     = [ex_E1, ex_E2] \<and>
   tap_events 2 (run ex_schedule (consume_call (new_TaskStreamConsumer ex_stream False)))
     = [ex_E1] \<and>
   tappers (run (take 3 ex_schedule) (consume_call (new_TaskStreamConsumer ex_stream False)))
     = [1, 2] \<and>
   tappers (run (take 12 ex_schedule) (consume_call (new_TaskStreamConsumer ex_stream False)))
     = [1, 2] \<and>
   finished (run ex_schedule (consume_call (new_TaskStreamConsumer ex_stream False)))"
  by code_simp

end
